theory Spec2Isabelle
  imports Complex_Main
begin

section \<open>Floating-point scalars\<close>

text \<open>
  The energies of the sampler are JAX floats. They are modelled as the reals extended
  with the two infinities and one NaN; rounding, overflow and underflow of finite values
  are not modelled: \<open>fexp\<close> of a finite value is the real exponential, which is never 0,
  where the exponential of a float underflows to 0. The operations follow IEEE 754 on
  the special values.
\<close>

datatype flt = Fin real | PInf | NInf | NaN

fun is_finite :: "flt \<Rightarrow> bool" where
  "is_finite (Fin r) = True"
| "is_finite PInf = False"
| "is_finite NInf = False"
| "is_finite NaN = False"

fun fneg :: "flt \<Rightarrow> flt" where
  "fneg (Fin r) = Fin (- r)"
| "fneg PInf = NInf"
| "fneg NInf = PInf"
| "fneg NaN = NaN"

fun fadd :: "flt \<Rightarrow> flt \<Rightarrow> flt" where
  "fadd (Fin a) (Fin b) = Fin (a + b)"
| "fadd (Fin a) PInf = PInf"
| "fadd (Fin a) NInf = NInf"
| "fadd (Fin a) NaN = NaN"
| "fadd PInf (Fin b) = PInf"
| "fadd PInf PInf = PInf"
| "fadd PInf NInf = NaN"
| "fadd PInf NaN = NaN"
| "fadd NInf (Fin b) = NInf"
| "fadd NInf PInf = NaN"
| "fadd NInf NInf = NInf"
| "fadd NInf NaN = NaN"
| "fadd NaN b = NaN"

definition fsub :: "flt \<Rightarrow> flt \<Rightarrow> flt" where
  "fsub a b = fadd a (fneg b)"

fun fexp :: "flt \<Rightarrow> flt" where
  "fexp (Fin r) = Fin (exp r)"
| "fexp PInf = PInf"
| "fexp NInf = Fin 0"
| "fexp NaN = NaN"

text \<open>The minimum of two floats; a NaN operand gives NaN.\<close>

fun fminimum :: "flt \<Rightarrow> flt \<Rightarrow> flt" where
  "fminimum (Fin a) (Fin b) = Fin (min a b)"
| "fminimum (Fin a) PInf = Fin a"
| "fminimum (Fin a) NInf = NInf"
| "fminimum (Fin a) NaN = NaN"
| "fminimum PInf (Fin b) = Fin b"
| "fminimum PInf PInf = PInf"
| "fminimum PInf NInf = NInf"
| "fminimum PInf NaN = NaN"
| "fminimum NInf (Fin b) = NInf"
| "fminimum NInf PInf = NInf"
| "fminimum NInf NInf = NInf"
| "fminimum NInf NaN = NaN"
| "fminimum NaN b = NaN"

text \<open>Strict comparison: every comparison with a NaN is false.\<close>

fun fless :: "flt \<Rightarrow> flt \<Rightarrow> bool" where
  "fless (Fin a) (Fin b) = (a < b)"
| "fless (Fin a) PInf = True"
| "fless (Fin a) NInf = False"
| "fless (Fin a) NaN = False"
| "fless PInf b = False"
| "fless NInf (Fin b) = True"
| "fless NInf PInf = True"
| "fless NInf NInf = False"
| "fless NInf NaN = False"
| "fless NaN b = False"

definition fle :: "flt \<Rightarrow> flt \<Rightarrow> bool" where
  "fle a b = (fless a b \<or> (a = b \<and> a \<noteq> NaN))"


section \<open>Data model\<close>

text \<open>
  A position or a momentum is a PyTree, in the tests a dict of named arrays
  (\<^verbatim>\<open>{"x": 1.}\<close>): an association list from names to arrays of floats.
\<close>

type_synonym pytree = "(string \<times> flt list) list"

text \<open>
  \<^verbatim>\<open>integrators.IntegratorState\<close> is declared outside \<^verbatim>\<open>hmc.py\<close>; its fields are
  those of the data model: position, momentum, potential energy and its gradient.
\<close>

record IntegratorState =
  position :: pytree
  momentum :: pytree
  potential_energy :: flt
  potential_energy_grad :: pytree

text \<open>
  \<^verbatim>\<open>proposal.Proposal\<close>: a state, its total energy and a weight. \<^verbatim>\<open>generate\<close> reads
  \<^verbatim>\<open>.energy\<close> only.
\<close>

record Proposal =
  state :: IntegratorState
  energy :: flt
  weight :: flt

text \<open>
  The first component of what \<^verbatim>\<open>sample_proposal\<close> returns; \<^verbatim>\<open>generate\<close> reads its
  \<^verbatim>\<open>.state\<close>. The field names carry a prefix because a record field is a constant.
\<close>

record SampledProposal =
  sampled_state :: IntegratorState
  sampled_acceptance_probability :: flt
  sampled_is_accepted :: bool

text \<open>
  \<^verbatim>\<open>class HMCInfo(NamedTuple)\<close>, \<^verbatim>\<open>hmc.py\<close> lines 48 to 54: seven fields, in this order.
  The field \<^verbatim>\<open>proposal\<close> is annotated \<^verbatim>\<open>integrators.IntegratorState\<close>, and \<^verbatim>\<open>generate\<close>
  stores \<^verbatim>\<open>new_proposal\<close> in it, which is a \<^verbatim>\<open>Proposal\<close>; a NamedTuple does not check
  the annotation, so the field has the type of what is stored.
  \<^verbatim>\<open>momentum\<close> and \<^verbatim>\<open>energy\<close> are \<open>info_momentum\<close> and \<open>info_energy\<close> here.
\<close>

record HMCInfo =
  info_momentum :: pytree
  acceptance_probability :: flt
  is_accepted :: bool
  is_divergent :: bool
  info_energy :: flt
  proposal :: Proposal
  num_integration_steps :: int

record CoupledState =
  state_1 :: IntegratorState
  state_2 :: IntegratorState
  is_coupled :: bool


section \<open>Collaborators that are not in \<^verbatim>\<open>hmc.py\<close>\<close>

text \<open>
  The random number generator is external. A key of type \<open>'k\<close> is split into two keys by
  \<open>random_split\<close> and gives a uniform draw of \<open>[0, 1)\<close> by \<open>random_uniform\<close>.
\<close>

record 'k rng =
  random_split :: "'k \<Rightarrow> 'k \<times> 'k"
  random_uniform :: "'k \<Rightarrow> real"

text \<open>
  Modelled from the spec: \<^verbatim>\<open>integrators.flip_momentum\<close> is missing. Section 4.5, step 3:
  "Flip (negate) the momentum of the trajectory endpoint". Every leaf of the momentum
  tree is negated; the other three fields are kept.
\<close>

definition tree_neg :: "pytree \<Rightarrow> pytree" where
  "tree_neg t = map (\<lambda>(name, xs). (name, map fneg xs)) t"

definition flip_momentum :: "IntegratorState \<Rightarrow> IntegratorState" where
  "flip_momentum st = st\<lparr>momentum := tree_neg (momentum st)\<rparr>"

text \<open>
  Modelled from the spec: \<^verbatim>\<open>trajectory.static_integration\<close> is missing. Section 4.3:
  the final state is "obtained by applying step_fn exactly num_steps times", with no
  early termination. A count below one applies it zero times.
\<close>

definition static_integration ::
  "(IntegratorState \<Rightarrow> flt \<Rightarrow> IntegratorState) \<Rightarrow> flt \<Rightarrow> int
    \<Rightarrow> IntegratorState \<Rightarrow> IntegratorState" where
  "static_integration step_fn step_size num_steps initial_state =
     ((\<lambda>s. step_fn s step_size) ^^ nat num_steps) initial_state"

text \<open>
  Modelled from the spec: \<^verbatim>\<open>proposal.proposal_generator\<close> is missing. Section 4.4:
  \<^verbatim>\<open>init_proposal(state)\<close> is a Proposal with
  energy = potential_energy(state) + kinetic_energy(state.momentum);
  \<^verbatim>\<open>generate_proposal(initial_energy, end_state)\<close> computes the end energy the same way,
  and is_diverging is true iff end_energy - initial_energy is not finite or exceeds the
  divergence threshold. A diverging proposal has weight zero. The spec gives no value to
  the weight otherwise: \<open>wt\<close> supplies it, from the initial and the end energy. The
  acceptance formula of the same section is stated on the two energies, and
  \<open>static_binomial_sampling\<close> below follows it: it does not read the weight.
\<close>

definition init_proposal ::
  "(flt \<Rightarrow> flt \<Rightarrow> flt) \<Rightarrow> (pytree \<Rightarrow> flt) \<Rightarrow> IntegratorState \<Rightarrow> Proposal" where
  "init_proposal wt kinetic_energy st =
     (let e = fadd (potential_energy st) (kinetic_energy (momentum st))
      in \<lparr>state = st, energy = e, weight = wt e e\<rparr>)"

definition generate_proposal ::
  "(flt \<Rightarrow> flt \<Rightarrow> flt) \<Rightarrow> (pytree \<Rightarrow> flt) \<Rightarrow> flt \<Rightarrow> flt \<Rightarrow> IntegratorState
    \<Rightarrow> Proposal \<times> bool" where
  "generate_proposal wt kinetic_energy divergence_threshold initial_energy end_state =
     (let end_energy = fadd (potential_energy end_state) (kinetic_energy (momentum end_state));
          delta = fsub end_energy initial_energy;
          is_diverging = (\<not> is_finite delta \<or> fless divergence_threshold delta)
      in (\<lparr>state = end_state, energy = end_energy,
           weight = (if is_diverging then Fin 0 else wt initial_energy end_energy)\<rparr>,
          is_diverging))"

definition proposal_generator ::
  "(flt \<Rightarrow> flt \<Rightarrow> flt) \<Rightarrow> (pytree \<Rightarrow> flt) \<Rightarrow> flt
    \<Rightarrow> (IntegratorState \<Rightarrow> Proposal) \<times> (flt \<Rightarrow> IntegratorState \<Rightarrow> Proposal \<times> bool)" where
  "proposal_generator wt kinetic_energy divergence_threshold =
     (init_proposal wt kinetic_energy, generate_proposal wt kinetic_energy divergence_threshold)"

text \<open>
  Modelled from the spec: \<^verbatim>\<open>proposal.static_binomial_sampling\<close> is missing. Section 4.4:
  "acceptance_probability = min(1, exp(initial_energy - new_energy)) (...; if new_energy
  is infinite/NaN, probability is 0). Accept iff a uniform draw in [0,1) is less than
  acceptance_probability; on accept return new_proposal's state, else return
  initial_proposal's state." It returns (SampledProposal, is_accepted,
  acceptance_probability).
\<close>

definition static_binomial_sampling ::
  "'k rng \<Rightarrow> 'k \<Rightarrow> Proposal \<Rightarrow> Proposal \<Rightarrow> SampledProposal \<times> bool \<times> flt" where
  "static_binomial_sampling g rng_key initial_proposal new_proposal =
     (let p_accept =
            (if is_finite (energy new_proposal)
             then fminimum (Fin 1) (fexp (fsub (energy initial_proposal) (energy new_proposal)))
             else Fin 0);
          do_accept = fless (Fin (random_uniform g rng_key)) p_accept
      in (\<lparr>sampled_state = (if do_accept then state new_proposal else state initial_proposal),
           sampled_acceptance_probability = p_accept,
           sampled_is_accepted = do_accept\<rparr>,
          do_accept, p_accept))"


section \<open>\<^verbatim>\<open>hmc.py\<close>\<close>

text \<open>
  \<^verbatim>\<open>generate\<close>, lines 149 to 176. The four callables are parameters, as in the source.
  \<^verbatim>\<open>sample_proposal\<close> returns a triple, which the source unpacks as
  \<^verbatim>\<open>sampled_proposal, *info\<close> and \<^verbatim>\<open>do_accept, p_accept = info\<close>.
\<close>

definition generate ::
  "'k \<Rightarrow> IntegratorState
    \<Rightarrow> (IntegratorState \<Rightarrow> IntegratorState)
    \<Rightarrow> (IntegratorState \<Rightarrow> Proposal)
    \<Rightarrow> (flt \<Rightarrow> IntegratorState \<Rightarrow> Proposal \<times> bool)
    \<Rightarrow> ('k \<Rightarrow> Proposal \<Rightarrow> Proposal \<Rightarrow> SampledProposal \<times> bool \<times> flt)
    \<Rightarrow> int
    \<Rightarrow> IntegratorState \<times> HMCInfo" where
  "generate rng_key st build_trajectory init_prop generate_prop sample_proposal n =
     (let end_state = build_trajectory st;
          end_state = flip_momentum end_state;
          initial_proposal = init_prop st;
          (new_proposal, is_diverging) = generate_prop (energy initial_proposal) end_state;
          (sampled_proposal, do_accept, p_accept) =
             sample_proposal rng_key initial_proposal new_proposal;
          info = \<lparr>info_momentum = momentum st,
                  acceptance_probability = p_accept,
                  is_accepted = do_accept,
                  is_divergent = is_diverging,
                  info_energy = energy new_proposal,
                  proposal = new_proposal,
                  num_integration_steps = n\<rparr>
      in (sampled_state sampled_proposal, info))"

text \<open>
  \<^verbatim>\<open>hmc_proposal\<close>, lines 100 to 146: \<^verbatim>\<open>partial(generate, ...)\<close> is the function of
  \<^verbatim>\<open>(rng_key, state)\<close> that remains.
\<close>

definition hmc_proposal ::
  "'k rng \<Rightarrow> (flt \<Rightarrow> flt \<Rightarrow> flt)
    \<Rightarrow> (IntegratorState \<Rightarrow> flt \<Rightarrow> IntegratorState) \<Rightarrow> (pytree \<Rightarrow> flt) \<Rightarrow> flt \<Rightarrow> int \<Rightarrow> flt
    \<Rightarrow> 'k \<Rightarrow> IntegratorState \<Rightarrow> IntegratorState \<times> HMCInfo" where
  "hmc_proposal g wt integrator kinetic_energy step_size n divergence_threshold =
     (let build_trajectory = static_integration integrator step_size n;
          (init_prop, generate_prop) = proposal_generator wt kinetic_energy divergence_threshold;
          sample_proposal = static_binomial_sampling g
      in (\<lambda>rng_key st.
            generate rng_key st build_trajectory init_prop generate_prop sample_proposal n))"

text \<open>
  Modelled from the spec: \<^verbatim>\<open>base.hmc\<close> is missing. Section 4.5, steps 1 and 5: the
  momentum is drawn from the momentum generator with the transition's random input and
  attached to the current position; the acceptance uses a draw independent of it. The
  key is split once, the first half draws the momentum, the second goes to the proposal
  generator.
\<close>

definition hmc ::
  "'k rng \<Rightarrow> ('k \<Rightarrow> pytree) \<Rightarrow> ('k \<Rightarrow> IntegratorState \<Rightarrow> IntegratorState \<times> HMCInfo)
    \<Rightarrow> 'k \<Rightarrow> IntegratorState \<Rightarrow> IntegratorState \<times> HMCInfo" where
  "hmc g momentum_generator proposal_gen rng_key st =
     (let (key_momentum, key_accept) = random_split g rng_key;
          augmented_state = st\<lparr>momentum := momentum_generator key_momentum\<rparr>
      in proposal_gen key_accept augmented_state)"

text \<open>
  \<^verbatim>\<open>kernel\<close>, lines 60 to 97. \<^verbatim>\<open>metrics.gaussian_euclidean\<close> is missing and is the
  parameter \<open>metric\<close>: from the inverse mass matrix it gives the momentum generator, the
  kinetic energy and the velocity. The integrator is a parameter in the source.
\<close>

type_synonym 'k kernel_fn = "'k \<Rightarrow> IntegratorState \<Rightarrow> IntegratorState \<times> HMCInfo"

definition kernel ::
  "'k rng \<Rightarrow> (flt \<Rightarrow> flt \<Rightarrow> flt)
    \<Rightarrow> ('m \<Rightarrow> ('k \<Rightarrow> pytree) \<times> (pytree \<Rightarrow> flt) \<times> (pytree \<Rightarrow> pytree))
    \<Rightarrow> (pytree \<Rightarrow> flt) \<Rightarrow> flt \<Rightarrow> 'm \<Rightarrow> int
    \<Rightarrow> ((pytree \<Rightarrow> flt) \<Rightarrow> (pytree \<Rightarrow> flt) \<Rightarrow> IntegratorState \<Rightarrow> flt \<Rightarrow> IntegratorState)
    \<Rightarrow> flt \<Rightarrow> 'k kernel_fn" where
  "kernel g wt metric potential_fn step_size inverse_mass_matrix n integrator
      divergence_threshold =
     (let (momentum_generator, kinetic_energy_fn, velocity) = metric inverse_mass_matrix;
          symplectic_integrator = integrator potential_fn kinetic_energy_fn;
          proposal_gen = hmc_proposal g wt symplectic_integrator kinetic_energy_fn step_size n
                           divergence_threshold
      in hmc g momentum_generator proposal_gen)"


section \<open>The coupled kernel and the sampling loop\<close>

text \<open>
  Modelled from the spec: the coupled kernel (\<^verbatim>\<open>cosim.coupled.hmc\<close>) is missing; the
  test calls it like the plain kernel, \<^verbatim>\<open>kernel(rng_key, state)\<close>. Section 4.6: when
  is_coupled is already true, "apply the ordinary HMC transition once and copy its result
  into both state_1 and state_2"; else "derive the same momentum draw and the same
  acceptance draw for both chains from the supplied random key", "run the HMC kernel
  logic independently for state_1 and state_2 using these shared draws", and "compare
  state_1.position and state_2.position for exact equality: if equal, set
  is_coupled=true". The diagnostics of both chains are returned beside the state.
\<close>

definition coupled_hmc ::
  "'k rng \<Rightarrow> ('k \<Rightarrow> pytree) \<Rightarrow> ('k \<Rightarrow> IntegratorState \<Rightarrow> IntegratorState \<times> HMCInfo)
    \<Rightarrow> 'k \<Rightarrow> CoupledState \<Rightarrow> CoupledState \<times> HMCInfo \<times> HMCInfo" where
  "coupled_hmc g momentum_generator proposal_gen rng_key cs =
     (if is_coupled cs then
        (let (s, info) = hmc g momentum_generator proposal_gen rng_key (state_1 cs)
         in (\<lparr>state_1 = s, state_2 = s, is_coupled = True\<rparr>, info, info))
      else
        (let (key_momentum, key_accept) = random_split g rng_key;
             m = momentum_generator key_momentum;
             (s1, info1) = proposal_gen key_accept ((state_1 cs)\<lparr>momentum := m\<rparr>);
             (s2, info2) = proposal_gen key_accept ((state_2 cs)\<lparr>momentum := m\<rparr>)
         in (\<lparr>state_1 = s1, state_2 = s2, is_coupled = (position s1 = position s2)\<rparr>,
             info1, info2)))"

text \<open>
  Modelled from the spec: section 6, "Coupled kernel construction: same signature plus
  producing a transition over CoupledState". It is built like \<^verbatim>\<open>kernel\<close>.
\<close>

definition coupled_kernel ::
  "'k rng \<Rightarrow> (flt \<Rightarrow> flt \<Rightarrow> flt)
    \<Rightarrow> ('m \<Rightarrow> ('k \<Rightarrow> pytree) \<times> (pytree \<Rightarrow> flt) \<times> (pytree \<Rightarrow> pytree))
    \<Rightarrow> (pytree \<Rightarrow> flt) \<Rightarrow> flt \<Rightarrow> 'm \<Rightarrow> int
    \<Rightarrow> ((pytree \<Rightarrow> flt) \<Rightarrow> (pytree \<Rightarrow> flt) \<Rightarrow> IntegratorState \<Rightarrow> flt \<Rightarrow> IntegratorState)
    \<Rightarrow> flt \<Rightarrow> 'k \<Rightarrow> CoupledState \<Rightarrow> CoupledState \<times> HMCInfo \<times> HMCInfo" where
  "coupled_kernel g wt metric potential_fn step_size inverse_mass_matrix n integrator
      divergence_threshold =
     (let (momentum_generator, kinetic_energy_fn, velocity) = metric inverse_mass_matrix;
          symplectic_integrator = integrator potential_fn kinetic_energy_fn;
          proposal_gen = hmc_proposal g wt symplectic_integrator kinetic_energy_fn step_size n
                           divergence_threshold
      in coupled_hmc g momentum_generator proposal_gen)"

text \<open>
  Modelled from the spec: section 4.6, \<^verbatim>\<open>new_state(position_1, position_2, potential_fn)\<close>
  is CoupledState{state_1, state_2, is_coupled=false}. The constructor of a single state
  (\<^verbatim>\<open>new_state = base.new_hmc_state\<close>, line 57, defined outside \<^verbatim>\<open>hmc.py\<close>) is the
  parameter \<open>new_state\<close>.
\<close>

definition coupled_new_state ::
  "(pytree \<Rightarrow> (pytree \<Rightarrow> flt) \<Rightarrow> IntegratorState) \<Rightarrow> pytree \<Rightarrow> pytree \<Rightarrow> (pytree \<Rightarrow> flt)
    \<Rightarrow> CoupledState" where
  "coupled_new_state new_state position_1 position_2 potential_fn =
     \<lparr>state_1 = new_state position_1 potential_fn,
      state_2 = new_state position_2 potential_fn,
      is_coupled = False\<rparr>"

text \<open>
  Modelled from the spec: the driver of the test (\<^verbatim>\<open>inference_loop\<close>) is missing. It
  "repeatedly calls the kernel and collects samples": one transition for each key of the
  key stream, the state after each transition is collected, the diagnostics are dropped.
\<close>

fun inference_loop :: "('k \<Rightarrow> 's \<Rightarrow> 's \<times> 'i) \<Rightarrow> 's \<Rightarrow> 'k list \<Rightarrow> 's list" where
  "inference_loop kern s [] = []"
| "inference_loop kern s (k # ks) =
     (let s' = fst (kern k s) in s' # inference_loop kern s' ks)"


section \<open>\<^verbatim>\<open>generate\<close> over collaborators that need not be functions\<close>

text \<open>
  The same body, lines 159 to 176, read as a relation between the inputs and a result:
  each call of a collaborator is a premise relating its arguments to a value it may
  return. Nothing else enters the result.
\<close>

inductive generate_rel ::
  "(IntegratorState \<Rightarrow> IntegratorState \<Rightarrow> bool)
    \<Rightarrow> (IntegratorState \<Rightarrow> Proposal \<Rightarrow> bool)
    \<Rightarrow> (flt \<Rightarrow> IntegratorState \<Rightarrow> Proposal \<times> bool \<Rightarrow> bool)
    \<Rightarrow> ('k \<Rightarrow> Proposal \<Rightarrow> Proposal \<Rightarrow> SampledProposal \<times> bool \<times> flt \<Rightarrow> bool)
    \<Rightarrow> int \<Rightarrow> 'k \<Rightarrow> IntegratorState \<Rightarrow> IntegratorState \<times> HMCInfo \<Rightarrow> bool"
  for build_trajectory init_prop generate_prop sample_proposal n
  where
    generate_relI:
    "build_trajectory st trajectory_end \<Longrightarrow>
     end_state = flip_momentum trajectory_end \<Longrightarrow>
     init_prop st initial_proposal \<Longrightarrow>
     generate_prop (energy initial_proposal) end_state (new_proposal, is_diverging) \<Longrightarrow>
     sample_proposal rng_key initial_proposal new_proposal
       (sampled_proposal, do_accept, p_accept) \<Longrightarrow>
     generate_rel build_trajectory init_prop generate_prop sample_proposal n rng_key st
       (sampled_state sampled_proposal,
        \<lparr>info_momentum = momentum st,
         acceptance_probability = p_accept,
         is_accepted = do_accept,
         is_divergent = is_diverging,
         info_energy = energy new_proposal,
         proposal = new_proposal,
         num_integration_steps = n\<rparr>)"

text \<open>A collaborator is deterministic when equal arguments give equal results.\<close>

definition deterministic1 :: "('a \<Rightarrow> 'r \<Rightarrow> bool) \<Rightarrow> bool" where
  "deterministic1 R = (\<forall>a r r'. R a r \<and> R a r' \<longrightarrow> r = r')"

definition deterministic2 :: "('a \<Rightarrow> 'b \<Rightarrow> 'r \<Rightarrow> bool) \<Rightarrow> bool" where
  "deterministic2 R = (\<forall>a b r r'. R a b r \<and> R a b r' \<longrightarrow> r = r')"

definition deterministic3 :: "('a \<Rightarrow> 'b \<Rightarrow> 'c \<Rightarrow> 'r \<Rightarrow> bool) \<Rightarrow> bool" where
  "deterministic3 R = (\<forall>a b c r r'. R a b c r \<and> R a b c r' \<longrightarrow> r = r')"

text \<open>A function, as the relation between its arguments and its value.\<close>

definition graph1 :: "('a \<Rightarrow> 'r) \<Rightarrow> 'a \<Rightarrow> 'r \<Rightarrow> bool" where
  "graph1 f a r = (r = f a)"

definition graph2 :: "('a \<Rightarrow> 'b \<Rightarrow> 'r) \<Rightarrow> 'a \<Rightarrow> 'b \<Rightarrow> 'r \<Rightarrow> bool" where
  "graph2 f a b r = (r = f a b)"

definition graph3 :: "('a \<Rightarrow> 'b \<Rightarrow> 'c \<Rightarrow> 'r) \<Rightarrow> 'a \<Rightarrow> 'b \<Rightarrow> 'c \<Rightarrow> 'r \<Rightarrow> bool" where
  "graph3 f a b c r = (r = f a b c)"


section \<open>The scenario of the test\<close>

text \<open>
  Concrete inputs for evaluating the definitions. The initial positions are those of
  \<^verbatim>\<open>test_coupling_hmc\<close>. Keys are natural numbers; \<open>example_rng\<close> splits \<open>k\<close> into \<open>2k\<close> and
  \<open>2k + 1\<close> and draws \<open>1/10\<close> from an even key, \<open>1/2\<close> from an odd one. \<open>example_integrator\<close> moves \<open>x\<close> by the step
  size and raises the potential energy by 2 in each step. The kinetic energy of
  \<open>example_metric\<close> is constantly zero and its momentum generator gives \<open>x = 1\<close>.
\<close>

definition initial_position_1 :: pytree where
  "initial_position_1 = [(''x'', [Fin 1])]"

definition initial_position_2 :: pytree where
  "initial_position_2 = [(''x'', [Fin (- 1)])]"

definition example_rng :: "nat rng" where
  "example_rng =
     \<lparr>random_split = (\<lambda>k. (2 * k, 2 * k + 1)),
      random_uniform = (\<lambda>k. if even k then 1 / 10 else 1 / 2)\<rparr>"

definition example_new_state :: "pytree \<Rightarrow> (pytree \<Rightarrow> flt) \<Rightarrow> IntegratorState" where
  "example_new_state pos potential_fn =
     \<lparr>position = pos, momentum = [], potential_energy = potential_fn pos,
      potential_energy_grad = []\<rparr>"

definition example_integrator ::
  "(pytree \<Rightarrow> flt) \<Rightarrow> (pytree \<Rightarrow> flt) \<Rightarrow> IntegratorState \<Rightarrow> flt \<Rightarrow> IntegratorState" where
  "example_integrator potential_fn kinetic_energy_fn st step_size =
     st\<lparr>position := map (\<lambda>(name, xs). (name, map (\<lambda>x. fadd x step_size) xs)) (position st),
        potential_energy := fadd (potential_energy st) (Fin 2)\<rparr>"

definition example_metric ::
  "unit \<Rightarrow> (nat \<Rightarrow> pytree) \<times> (pytree \<Rightarrow> flt) \<times> (pytree \<Rightarrow> pytree)" where
  "example_metric m = ((\<lambda>k. [(''x'', [Fin 1])]), (\<lambda>p. Fin 0), (\<lambda>p. p))"

definition example_state :: IntegratorState where
  "example_state = example_new_state initial_position_1 (\<lambda>p. Fin 0)"

text \<open>
  The proposal generator of the scenario: one integration step of size \<open>1/100\<close> and a
  divergence threshold of 1, both legal values of the parameters of \<^verbatim>\<open>kernel\<close>.
\<close>

definition example_proposal_generator :: "nat \<Rightarrow> IntegratorState \<Rightarrow> IntegratorState \<times> HMCInfo" where
  "example_proposal_generator =
     hmc_proposal example_rng fsub (example_integrator (\<lambda>p. Fin 0) (\<lambda>p. Fin 0)) (\<lambda>p. Fin 0)
       (Fin (1 / 100)) 1 (Fin 1)"

definition example_endpoint :: IntegratorState where
  "example_endpoint =
     \<lparr>position = [(''x'', [Fin (101 / 100)])], momentum = [], potential_energy = Fin 2,
      potential_energy_grad = []\<rparr>"

text \<open>
  The coupled kernel of the scenario and the pair of chains of the test, started at 1
  and at -1.
\<close>

definition example_coupled_kernel ::
  "nat \<Rightarrow> CoupledState \<Rightarrow> CoupledState \<times> HMCInfo \<times> HMCInfo" where
  "example_coupled_kernel =
     coupled_kernel example_rng fsub example_metric (\<lambda>p. Fin 0) (Fin (1 / 100)) () 1
       example_integrator (Fin 1)"

definition example_uncoupled_state :: CoupledState where
  "example_uncoupled_state =
     coupled_new_state example_new_state initial_position_1 initial_position_2 (\<lambda>p. Fin 0)"







section \<open>Unfolding the constructors\<close>

lemma generate_unfold:
  "generate k st bt ip gp sp n =
     (let e = flip_momentum (bt st);
          np = fst (gp (energy (ip st)) e);
          r = sp k (ip st) np
      in (sampled_state (fst r),
          \<lparr>info_momentum = momentum st,
           acceptance_probability = snd (snd r),
           is_accepted = fst (snd r),
           is_divergent = snd (gp (energy (ip st)) e),
           info_energy = energy np,
           proposal = np,
           num_integration_steps = n\<rparr>))"
  by (simp add: generate_def Let_def split: prod.splits)

lemma hmc_proposal_unfold:
  "hmc_proposal g wt integ ke ss n thr k st =
     generate k st (static_integration integ ss n) (init_proposal wt ke)
       (generate_proposal wt ke thr) (static_binomial_sampling g) n"
  by (simp add: hmc_proposal_def proposal_generator_def Let_def)

lemma kernel_unfold:
  "kernel g wt metric pot ss imm n integ thr =
     hmc g (fst (metric imm))
       (hmc_proposal g wt (integ pot (fst (snd (metric imm)))) (fst (snd (metric imm))) ss n thr)"
  by (simp add: kernel_def Let_def split: prod.splits)

lemma coupled_kernel_unfold:
  "coupled_kernel g wt metric pot ss imm n integ thr =
     coupled_hmc g (fst (metric imm))
       (hmc_proposal g wt (integ pot (fst (snd (metric imm)))) (fst (snd (metric imm))) ss n thr)"
  by (simp add: coupled_kernel_def Let_def split: prod.splits)

lemma flip_momentum_fields:
  "momentum (flip_momentum st) = tree_neg (momentum st)"
  "position (flip_momentum st) = position st"
  "potential_energy (flip_momentum st) = potential_energy st"
  "potential_energy_grad (flip_momentum st) = potential_energy_grad st"
  by (simp_all add: flip_momentum_def)

lemma tree_neg_leaves: "tree_neg [(''x'', [Fin 2, NInf])] = [(''x'', [Fin (- 2), PInf])]"
  by (simp add: tree_neg_def)

lemma generate_proposal_fields:
  "state (fst (generate_proposal wt ke thr e0 st)) = st"
  "energy (fst (generate_proposal wt ke thr e0 st)) = fadd (potential_energy st) (ke (momentum st))"
  "snd (generate_proposal wt ke thr e0 st) =
     (\<not> is_finite (fsub (fadd (potential_energy st) (ke (momentum st))) e0)
       \<or> fless thr (fsub (fadd (potential_energy st) (ke (momentum st))) e0))"
  by (simp_all add: generate_proposal_def Let_def)

lemma init_proposal_fields:
  "state (init_proposal wt ke st) = st"
  "energy (init_proposal wt ke st) = fadd (potential_energy st) (ke (momentum st))"
  by (simp_all add: init_proposal_def Let_def)

lemma static_binomial_sampling_fields:
  "snd (snd (static_binomial_sampling g k p np)) =
     (if is_finite (energy np) then fminimum (Fin 1) (fexp (fsub (energy p) (energy np)))
      else Fin 0)"
  "fst (snd (static_binomial_sampling g k p np)) =
     fless (Fin (random_uniform g k)) (snd (snd (static_binomial_sampling g k p np)))"
  "sampled_state (fst (static_binomial_sampling g k p np)) =
     (if fst (snd (static_binomial_sampling g k p np)) then state np else state p)"
  by (simp_all add: static_binomial_sampling_def Let_def)

lemma is_finite_fsub: "is_finite (fsub a b) = (is_finite a \<and> is_finite b)"
  by (cases a; cases b) (simp_all add: fsub_def)


section \<open>The scenario, evaluated\<close>

lemma exp_minus_two_bounds: "1 / 10 < exp (- 2 :: real)" "exp (- 2 :: real) < 1 / 2"
proof -
  have "exp (2::real) = exp 1 * exp 1"
    by (simp flip: exp_add)
  also have "\<dots> \<le> 3 * 3"
    by (intro mult_mono exp_le) simp_all
  finally have upper: "exp (2::real) < 10"
    by simp
  have lower: "2 < exp (2::real)"
    using exp_ge_add_one_self [of "2::real"] by simp
  have pos: "0 < exp (2::real)"
    by simp
  from upper pos have "1 / 10 < 1 / exp (2::real)"
    by (simp add: field_simps)
  then show "1 / 10 < exp (- 2 :: real)"
    by (simp add: exp_minus inverse_eq_divide)
  from lower pos have "1 / exp (2::real) < 1 / 2"
    by (simp add: field_simps)
  then show "exp (- 2 :: real) < 1 / 2"
    by (simp add: exp_minus inverse_eq_divide)
qed

lemma example_trajectory:
  "static_integration (example_integrator pot ke) (Fin (1 / 100)) 1 example_state =
     example_endpoint"
  by (simp add: static_integration_def example_integrator_def example_state_def
      example_new_state_def initial_position_1_def example_endpoint_def)

lemma example_flip: "flip_momentum example_endpoint = example_endpoint"
  by (simp add: flip_momentum_def tree_neg_def example_endpoint_def)

lemma example_energies:
  "potential_energy example_state = Fin 0" "momentum example_state = []"
  "potential_energy example_endpoint = Fin 2" "momentum example_endpoint = []"
  "example_endpoint \<noteq> example_state"
  by (simp_all add: example_state_def example_new_state_def example_endpoint_def
      initial_position_1_def)

lemma example_draws:
  "random_uniform example_rng k = (if even k then 1 / 10 else 1 / 2)"
  "random_split example_rng k = (2 * k, 2 * k + 1)"
  by (simp_all add: example_rng_def)

text \<open>
  With an even key the draw is 1/10, below the acceptance probability exp (-2): the
  proposal is accepted. With an odd key the draw is 1/2: it is rejected.
\<close>

lemma example_accepted:
  "even k \<Longrightarrow> example_proposal_generator k example_state =
     (example_endpoint,
      \<lparr>info_momentum = [], acceptance_probability = Fin (exp (- 2)), is_accepted = True,
       is_divergent = True, info_energy = Fin 2,
       proposal = \<lparr>state = example_endpoint, energy = Fin 2, weight = Fin 0\<rparr>,
       num_integration_steps = 1\<rparr>)"
  using exp_minus_two_bounds
  by (simp add: example_proposal_generator_def hmc_proposal_unfold generate_def
      example_trajectory example_flip init_proposal_def generate_proposal_def
      static_binomial_sampling_def example_energies example_draws fsub_def Let_def min_def)

lemma example_rejected:
  "odd k \<Longrightarrow> example_proposal_generator k example_state =
     (example_state,
      \<lparr>info_momentum = [], acceptance_probability = Fin (exp (- 2)), is_accepted = False,
       is_divergent = True, info_energy = Fin 2,
       proposal = \<lparr>state = example_endpoint, energy = Fin 2, weight = Fin 0\<rparr>,
       num_integration_steps = 1\<rparr>)"
  using exp_minus_two_bounds
  by (simp add: example_proposal_generator_def hmc_proposal_unfold generate_def
      example_trajectory example_flip init_proposal_def generate_proposal_def
      static_binomial_sampling_def example_energies example_draws fsub_def Let_def min_def)

section \<open>The transition of \<^verbatim>\<open>generate\<close>\<close>

text \<open>
  C1. In every transition the momentum of the trajectory endpoint is negated after the
  trajectory is built and before anything is compared: the new proposal and the
  divergence flag come from \<open>generate_prop\<close> applied to the initial energy and the flipped
  endpoint, and the acceptance sampler is run on the initial proposal and that new
  proposal. This holds for every trajectory builder and every proposal machinery.
\<close>

theorem momentum_flipped_before_acceptance:
  "(let end_state = flip_momentum (bt st);
        r = generate k st bt ip gp sp n
    in momentum end_state = tree_neg (momentum (bt st))
       \<and> (proposal (snd r), is_divergent (snd r)) = gp (energy (ip st)) end_state
       \<and> (is_accepted (snd r), acceptance_probability (snd r))
           = snd (sp k (ip st) (fst (gp (energy (ip st)) end_state)))
       \<and> fst r = sampled_state (fst (sp k (ip st) (fst (gp (energy (ip st)) end_state)))))"
  by (simp add: generate_unfold Let_def flip_momentum_fields)

text \<open>
  C2. The acceptance probability of \<open>static_binomial_sampling\<close> is
  min(1, exp(initial_energy - new_energy)) whenever the new energy is finite; it lies in
  [0, 1] whenever the energy difference is finite; it is 0 whenever the new energy is
  infinite or NaN.
\<close>

theorem acceptance_probability_bound:
  "(let p_accept = snd (snd (static_binomial_sampling g k p np))
    in (is_finite (energy np) \<longrightarrow>
          p_accept = fminimum (Fin 1) (fexp (fsub (energy p) (energy np))))
       \<and> (is_finite (fsub (energy p) (energy np)) \<longrightarrow>
          fle (Fin 0) p_accept \<and> fle p_accept (Fin 1))
       \<and> (\<not> is_finite (energy np) \<longrightarrow> p_accept = Fin 0))"
proof -
  have "fle (Fin 0) (fminimum (Fin 1) (fexp (fsub a b)))
        \<and> fle (fminimum (Fin 1) (fexp (fsub a b))) (Fin 1)"
    if "is_finite a" "is_finite b" for a b
    using that by (cases a; cases b) (simp_all add: fsub_def fle_def min_def)
  then show ?thesis
    by (simp add: static_binomial_sampling_fields Let_def is_finite_fsub)
qed

theorem acceptance_probability_bound_witness:
  "is_finite (Fin 2)
   \<and> is_finite (fsub (Fin 0) (Fin 2))
   \<and> snd (snd (static_binomial_sampling example_rng 0
         \<lparr>state = example_state, energy = Fin 0, weight = Fin 0\<rparr>
         \<lparr>state = example_endpoint, energy = Fin 2, weight = Fin 0\<rparr>)) = Fin (exp (- 2))
   \<and> fle (Fin 0) (Fin (exp (- 2))) \<and> fle (Fin (exp (- 2))) (Fin 1)
   \<and> \<not> is_finite NaN
   \<and> snd (snd (static_binomial_sampling example_rng 0
         \<lparr>state = example_state, energy = Fin 0, weight = Fin 0\<rparr>
         \<lparr>state = example_endpoint, energy = NaN, weight = Fin 0\<rparr>)) = Fin 0"
  using acceptance_probability_bound [where g = example_rng and k = 0
      and p = "\<lparr>state = example_state, energy = Fin 0, weight = Fin 0\<rparr>"
      and np = "\<lparr>state = example_endpoint, energy = Fin 2, weight = Fin 0\<rparr>"]
    acceptance_probability_bound [where g = example_rng and k = 0
      and p = "\<lparr>state = example_state, energy = Fin 0, weight = Fin 0\<rparr>"
      and np = "\<lparr>state = example_endpoint, energy = NaN, weight = Fin 0\<rparr>"]
  by (simp add: Let_def fsub_def fle_def min_def)

text \<open>
  C3. Every transition returns a state. The acceptance probability is
  min(1, exp(initial_energy - new_energy)) of the energies of the input state and of the
  flipped endpoint of the trajectory (0 when the new energy is not finite); the proposal
  is accepted iff the uniform draw is less than it; when it is, the returned state is the
  state of the new proposal, the flipped endpoint, otherwise it is the state that was
  passed in, unchanged.
\<close>

theorem transition_returns_proposal_or_original:
  "(let r = hmc_proposal g wt integ ke ss n thr k st;
        info = snd r;
        end_state = flip_momentum (static_integration integ ss n st);
        initial_energy = fadd (potential_energy st) (ke (momentum st));
        new_energy = fadd (potential_energy end_state) (ke (momentum end_state));
        p_accept = (if is_finite new_energy
                    then fminimum (Fin 1) (fexp (fsub initial_energy new_energy))
                    else Fin 0);
        do_accept = fless (Fin (random_uniform g k)) p_accept
    in acceptance_probability info = p_accept
       \<and> is_accepted info = do_accept
       \<and> state (proposal info) = end_state
       \<and> fst r = (if do_accept then end_state else st))"
  by (simp add: hmc_proposal_unfold generate_unfold Let_def static_binomial_sampling_fields
      generate_proposal_fields init_proposal_fields)

theorem transition_returns_proposal_or_original_witness:
  "fst (example_proposal_generator 0 example_state) = example_endpoint
   \<and> is_accepted (snd (example_proposal_generator 0 example_state))
   \<and> fst (example_proposal_generator 3 example_state) = example_state
   \<and> acceptance_probability (snd (example_proposal_generator 3 example_state))
       = Fin (exp (- 2))
   \<and> example_endpoint \<noteq> example_state"
  using exp_minus_two_bounds
    transition_returns_proposal_or_original [where g = example_rng and wt = fsub
      and integ = "example_integrator (\<lambda>p. Fin 0) (\<lambda>p. Fin 0)" and ke = "\<lambda>p. Fin 0"
      and ss = "Fin (1 / 100)" and n = 1 and thr = "Fin 1" and k = 0 and st = example_state]
    transition_returns_proposal_or_original [where g = example_rng and wt = fsub
      and integ = "example_integrator (\<lambda>p. Fin 0) (\<lambda>p. Fin 0)" and ke = "\<lambda>p. Fin 0"
      and ss = "Fin (1 / 100)" and n = 1 and thr = "Fin 1" and k = 3 and st = example_state]
  by (simp add: Let_def example_trajectory example_flip example_energies example_draws
      fsub_def min_def example_proposal_generator_def [symmetric])


section \<open>Determinism\<close>

lemma deterministic_graph:
  "deterministic1 (graph1 f)" "deterministic2 (graph2 f2)" "deterministic3 (graph3 f3)"
  by (simp_all add: deterministic1_def deterministic2_def deterministic3_def
      graph1_def graph2_def graph3_def)

text \<open>
  Over collaborators that are functions, the relation is the graph of \<open>generate\<close>: the
  two readings of the source agree.
\<close>

lemma graph_unfold:
  "graph1 f = (\<lambda>a r. r = f a)"
  "graph2 f2 = (\<lambda>a b r. r = f2 a b)"
  "graph3 f3 = (\<lambda>a b c r. r = f3 a b c)"
  by (simp_all add: fun_eq_iff graph1_def graph2_def graph3_def)

lemma generate_rel_of_functions:
  "generate_rel (graph1 bt) (graph1 ip) (graph2 gp) (graph3 sp) n k st r
   = (r = generate k st bt ip gp sp n)"
  unfolding graph_unfold
proof
  assume "generate_rel (\<lambda>s e. e = bt s) (\<lambda>s p. p = ip s) (\<lambda>e0 s r. r = gp e0 s)
     (\<lambda>k p np r. r = sp k p np) n k st r"
  then show "r = generate k st bt ip gp sp n"
  proof (cases rule: generate_rel.cases)
    case (generate_relI e0 e p np dv s acc pa)
    from generate_relI(5,6) [symmetric] generate_relI(1-4)
    show ?thesis
      by (simp add: generate_unfold Let_def)
  qed
next
  assume r: "r = generate k st bt ip gp sp n"
  obtain np dv where gp: "gp (energy (ip st)) (flip_momentum (bt st)) = (np, dv)"
    by (cases "gp (energy (ip st)) (flip_momentum (bt st))")
  obtain s acc pa where sp: "sp k (ip st) np = (s, acc, pa)"
    by (cases "sp k (ip st) np")
  have "generate_rel (\<lambda>s e. e = bt s) (\<lambda>s p. p = ip s) (\<lambda>e0 s r. r = gp e0 s)
     (\<lambda>k p np r. r = sp k p np) n k st
       (sampled_state s,
        \<lparr>info_momentum = momentum st, acceptance_probability = pa, is_accepted = acc,
         is_divergent = dv, info_energy = energy np, proposal = np,
         num_integration_steps = n\<rparr>)"
    by (rule generate_relI [where trajectory_end = "bt st"
          and end_state = "flip_momentum (bt st)" and initial_proposal = "ip st"])
      (simp_all add: gp sp)
  then show "generate_rel (\<lambda>s e. e = bt s) (\<lambda>s p. p = ip s) (\<lambda>e0 s r. r = gp e0 s)
     (\<lambda>k p np r. r = sp k p np) n k st r"
    by (simp add: r generate_unfold Let_def gp sp)
qed

text \<open>
  C5. The transition is referentially transparent: when the collaborators (the static
  configuration) are deterministic, two runs of \<^verbatim>\<open>generate\<close> on the same random key and
  the same state return the same state and the same HMCInfo.
\<close>

theorem generate_deterministic:
  assumes bt: "deterministic1 BT"
    and ip: "deterministic1 IP"
    and gp: "deterministic2 GP"
    and sp: "deterministic3 SP"
    and r: "generate_rel BT IP GP SP n k st r"
    and r': "generate_rel BT IP GP SP n k st r'"
  shows "r = r'"
  using r
proof (cases rule: generate_rel.cases)
  case a: (generate_relI e0 e p np dv s acc pa)
  from r' show ?thesis
  proof (cases rule: generate_rel.cases)
    case b: (generate_relI e0' e' p' np' dv' s' acc' pa')
    from bt a(2) b(2) have "e0 = e0'"
      unfolding deterministic1_def by blast
    with a(3) b(3) have e: "e = e'"
      by simp
    from ip a(4) b(4) have p: "p = p'"
      unfolding deterministic1_def by blast
    from gp a(5) b(5) e p have "(np, dv) = (np', dv')"
      unfolding deterministic2_def by blast
    then have np: "np = np'" "dv = dv'"
      by simp_all
    from sp a(6) b(6) p np have "(s, acc, pa) = (s', acc', pa')"
      unfolding deterministic3_def by blast
    with a(1) b(1) np show ?thesis
      by simp
  qed
qed

theorem generate_deterministic_witness:
  "deterministic1 (graph1 (static_integration (example_integrator (\<lambda>p. Fin 0) (\<lambda>p. Fin 0))
       (Fin (1 / 100)) 1))
   \<and> deterministic1 (graph1 (init_proposal fsub (\<lambda>p. Fin 0)))
   \<and> deterministic2 (graph2 (generate_proposal fsub (\<lambda>p. Fin 0) (Fin 1)))
   \<and> deterministic3 (graph3 (static_binomial_sampling example_rng))
   \<and> example_proposal_generator 3 example_state =
       (example_state,
        \<lparr>info_momentum = [], acceptance_probability = Fin (exp (- 2)), is_accepted = False,
         is_divergent = True, info_energy = Fin 2,
         proposal = \<lparr>state = example_endpoint, energy = Fin 2, weight = Fin 0\<rparr>,
         num_integration_steps = 1\<rparr>)"
proof -
  let ?bt = "static_integration (example_integrator (\<lambda>p. Fin 0) (\<lambda>p. Fin 0)) (Fin (1 / 100)) 1"
  let ?ip = "init_proposal fsub (\<lambda>p. Fin 0)"
  let ?gp = "generate_proposal fsub (\<lambda>p. Fin 0) (Fin 1)"
  let ?sp = "static_binomial_sampling example_rng"
  let ?v = "(example_state,
        \<lparr>info_momentum = [], acceptance_probability = Fin (exp (- 2)), is_accepted = False,
         is_divergent = True, info_energy = Fin 2,
         proposal = \<lparr>state = example_endpoint, energy = Fin 2, weight = Fin 0\<rparr>,
         num_integration_steps = 1\<rparr>)"
  have run: "example_proposal_generator 3 example_state = generate 3 example_state ?bt ?ip ?gp ?sp 1"
    unfolding example_proposal_generator_def hmc_proposal_unfold by (rule refl)
  have first: "generate_rel (graph1 ?bt) (graph1 ?ip) (graph2 ?gp) (graph3 ?sp) 1 3 example_state
      (example_proposal_generator 3 example_state)"
    by (simp add: generate_rel_of_functions run)
  have second: "generate_rel (graph1 ?bt) (graph1 ?ip) (graph2 ?gp) (graph3 ?sp) 1 3 example_state ?v"
    using example_rejected [of 3]
    by (simp add: generate_rel_of_functions run [symmetric])
  from generate_deterministic [OF deterministic_graph(1) deterministic_graph(1)
      deterministic_graph(2) deterministic_graph(3) first second]
  show ?thesis
    by (simp add: deterministic_graph)
qed


section \<open>The record of diagnostics\<close>

text \<open>
  C8. The HMCInfo of a transition has exactly seven fields: the momentum used, the
  acceptance probability, the acceptance flag, the divergence flag, the energy of the
  proposal, the proposal with its full state, and the number of integration steps, which
  is the number of steps the trajectory was built with.
\<close>

theorem info_has_seven_fields:
  "snd (hmc_proposal g wt integ ke ss n thr k st) =
     (let end_state = flip_momentum (static_integration integ ss n st);
          initial = init_proposal wt ke st;
          new_proposal = fst (generate_proposal wt ke thr (energy initial) end_state);
          sampled = static_binomial_sampling g k initial new_proposal
      in \<lparr>info_momentum = momentum st,
          acceptance_probability = snd (snd sampled),
          is_accepted = fst (snd sampled),
          is_divergent = snd (generate_proposal wt ke thr (energy initial) end_state),
          info_energy = energy new_proposal,
          proposal = new_proposal,
          num_integration_steps = n\<rparr>)"
  by (simp add: hmc_proposal_unfold generate_unfold Let_def)

theorem info_has_seven_fields_witness:
  "snd (example_proposal_generator 0 example_state) =
     \<lparr>info_momentum = [], acceptance_probability = Fin (exp (- 2)), is_accepted = True,
      is_divergent = True, info_energy = Fin 2,
      proposal = \<lparr>state = example_endpoint, energy = Fin 2, weight = Fin 0\<rparr>,
      num_integration_steps = 1\<rparr>"
  using exp_minus_two_bounds
    info_has_seven_fields [where g = example_rng and wt = fsub
      and integ = "example_integrator (\<lambda>p. Fin 0) (\<lambda>p. Fin 0)" and ke = "\<lambda>p. Fin 0"
      and ss = "Fin (1 / 100)" and n = 1 and thr = "Fin 1" and k = 0 and st = example_state]
  by (simp add: example_proposal_generator_def example_trajectory example_flip
      init_proposal_def generate_proposal_def static_binomial_sampling_def example_energies
      example_draws fsub_def Let_def min_def)

text \<open>
  C9. The fields \<open>proposal\<close> and \<open>energy\<close> of the HMCInfo describe the new proposal, the
  endpoint of the trajectory with its momentum flipped, whether it was accepted or not:
  on rejection the state returned is the original one, and the diagnostic still carries
  the state and the energy of the rejected proposal.
\<close>

theorem info_describes_endpoint_proposal:
  "(let r = hmc_proposal g wt integ ke ss n thr k st;
        info = snd r;
        end_state = flip_momentum (static_integration integ ss n st)
    in state (proposal info) = end_state
       \<and> momentum (state (proposal info))
           = tree_neg (momentum (static_integration integ ss n st))
       \<and> energy (proposal info) = fadd (potential_energy end_state) (ke (momentum end_state))
       \<and> info_energy info = energy (proposal info)
       \<and> (\<not> is_accepted info \<longrightarrow> fst r = st))"
  by (simp add: hmc_proposal_unfold generate_unfold Let_def static_binomial_sampling_fields
      generate_proposal_fields init_proposal_fields flip_momentum_fields)

theorem info_describes_endpoint_proposal_witness:
  "\<not> is_accepted (snd (example_proposal_generator 3 example_state))
   \<and> fst (example_proposal_generator 3 example_state) = example_state
   \<and> state (proposal (snd (example_proposal_generator 3 example_state))) = example_endpoint
   \<and> info_energy (snd (example_proposal_generator 3 example_state)) = Fin 2
   \<and> example_endpoint \<noteq> example_state"
  using info_describes_endpoint_proposal [where g = example_rng and wt = fsub
      and integ = "example_integrator (\<lambda>p. Fin 0) (\<lambda>p. Fin 0)" and ke = "\<lambda>p. Fin 0"
      and ss = "Fin (1 / 100)" and n = 1 and thr = "Fin 1" and k = 3 and st = example_state]
    example_rejected [of 3]
  by (simp add: Let_def example_energies example_trajectory example_flip
      example_proposal_generator_def [symmetric])

text \<open>
  C10. The field \<open>momentum\<close> of the HMCInfo is the momentum of the state that was passed
  to \<^verbatim>\<open>generate\<close>, the one the trajectory started from, whatever the trajectory builder
  and the flip make of the endpoint.
\<close>

theorem info_momentum_is_initial:
  "info_momentum (snd (generate k st bt ip gp sp n)) = momentum st"
  by (simp add: generate_unfold Let_def)


section \<open>The coupled kernel\<close>

lemma coupled_hmc_state_1:
  "state_1 (fst (coupled_hmc g mg pg k cs)) = fst (hmc g mg pg k (state_1 cs))"
  by (simp add: coupled_hmc_def hmc_def Let_def split: prod.splits)

lemma inference_loop_state_1:
  "map state_1 (inference_loop (coupled_hmc g mg pg) cs ks) =
     inference_loop (hmc g mg pg) (state_1 cs) ks"
proof (induction ks arbitrary: cs)
  case Nil
  show ?case by simp
next
  case (Cons k ks)
  show ?case
    by (simp add: Let_def coupled_hmc_state_1 Cons.IH)
qed

text \<open>
  C6. With the same potential, step size, inverse mass matrix, number of integration
  steps, integrator and threshold, the same initial position of chain 1 and the same
  stream of keys, the states of chain 1 under the coupled kernel are, sample for sample,
  the states of the plain kernel.
\<close>

theorem coupled_chain_1_is_plain_chain:
  "map state_1
     (inference_loop (coupled_kernel g wt metric pot ss imm n integ thr)
        (coupled_new_state new_state first_position second_position pot) ks)
   = inference_loop (kernel g wt metric pot ss imm n integ thr) (new_state first_position pot) ks"
  by (simp add: coupled_kernel_unfold kernel_unfold inference_loop_state_1
      coupled_new_state_def)








section \<open>The coupled scenario, evaluated\<close>


lemma example_plain_chain:
  "inference_loop (kernel example_rng fsub example_metric (\<lambda>p. Fin 0) (Fin (1 / 100)) () 1
       example_integrator (Fin 1)) (example_new_state initial_position_1 (\<lambda>p. Fin 0)) [0]
   = [\<lparr>position = [(''x'', [Fin 1])], momentum = [(''x'', [Fin 1])],
        potential_energy = Fin 0, potential_energy_grad = []\<rparr>]"
  using exp_minus_two_bounds
  by (simp add: kernel_unfold hmc_def example_new_state_def
      example_metric_def example_draws hmc_proposal_unfold generate_def
      static_integration_def example_integrator_def flip_momentum_def tree_neg_def
      init_proposal_def generate_proposal_def static_binomial_sampling_def
      initial_position_1_def fsub_def Let_def min_def)

theorem coupled_chain_1_is_plain_chain_witness:
  "map state_1 (inference_loop example_coupled_kernel example_uncoupled_state [0])
   = [\<lparr>position = [(''x'', [Fin 1])], momentum = [(''x'', [Fin 1])],
        potential_energy = Fin 0, potential_energy_grad = []\<rparr>]"
  using coupled_chain_1_is_plain_chain [where g = example_rng and wt = fsub
      and metric = example_metric and pot = "\<lambda>p. Fin 0" and ss = "Fin (1 / 100)" and imm = "()"
      and n = 1 and integ = example_integrator and thr = "Fin 1"
      and new_state = example_new_state and first_position = initial_position_1
      and second_position = initial_position_2 and ks = "[0]"]
  by (simp only: example_plain_chain example_coupled_kernel_def example_uncoupled_state_def)

end
